theory Spec2Isabelle
  imports Complex_Main "HOL-Library.AList"
begin

section \<open>Data model (models.py, config.py)\<close>

text \<open>
  Python floats are idealised as rationals (\<open>rat\<close>): every arithmetic step of the source is
  kept, evaluated exactly. Python integers are \<open>int\<close>. An \<open>Optional\<close> field is an
  \<open>option\<close>. A dictionary is an association list in insertion order (the order Python
  iterates in), read with \<open>map_of\<close>, written with \<open>AList.update\<close> and \<open>AList.delete\<close>.
\<close>

datatype py_error = ZeroDivisionError

datatype ActionType = BUY | SELL | HOLD | ANALYZE | GET_DATA

datatype DecisionType = STRONG_BUY | DT_BUY | DT_HOLD | DT_SELL | STRONG_SELL

datatype RiskLevel = VERY_LOW | LOW | MEDIUM | HIGH | VERY_HIGH

record TradeRequest =
  tr_action :: ActionType
  tr_symbol :: string
  tr_quantity :: "int option"
  tr_percentage :: "rat option"
  tr_price :: "rat option"
  tr_stop_loss :: "rat option"
  tr_take_profit :: "rat option"
  tr_reason :: "string option"
  tr_confidence :: "rat option"

record Holding =
  symbol :: string
  quantity :: int
  avg_price :: rat
  current_price :: rat
  current_value :: rat
  unrealized_pnl :: rat
  unrealized_pnl_percentage :: rat
  percentage_of_portfolio :: rat

text \<open>One entry of the \<open>holdings\<close> dictionary that \<open>get_portfolio_state\<close> returns.\<close>

record HoldingInfo =
  hi_quantity :: int
  hi_avg_price :: rat
  hi_current_price :: rat
  hi_current_value :: rat
  hi_unrealized_pnl :: rat
  hi_unrealized_pnl_percentage :: rat
  hi_percentage_of_portfolio :: rat

record PortfolioState =
  ps_total_budget :: rat
  ps_available_cash :: rat
  ps_total_value :: rat
  ps_holdings :: "(string \<times> HoldingInfo) list"
  ps_total_pnl :: rat
  ps_total_pnl_percentage :: rat

text \<open>The fields of a \<open>PortfolioManager\<close> object.\<close>

record PortfolioManager =
  initial_budget :: rat
  available_cash :: rat
  holdings :: "(string \<times> Holding) list"
  trade_history :: "TradeRequest list"
  total_pnl :: rat
  total_pnl_percentage :: rat

text \<open>
  The second component of the \<open>(bool, str)\<close> results. The source formats a sentence;
  the model keeps which sentence it is and the values it prints (unrounded):
  \<^item> \<open>InsufficientCash need have\<close>: "Insufficient cash. Need .., have .."
  \<^item> \<open>PositionTooLarge p\<close>: "Position too large. p% exceeds ..% limit"
  \<^item> \<open>PositionTooSmall p\<close>: "Position too small. p% below ..% minimum"
  \<^item> \<open>NoHolding s\<close>: "No holdings in s"
  \<^item> \<open>InsufficientShares need have\<close>: "Insufficient holdings. Need .., have .."
  \<^item> \<open>InvalidAction\<close>: "Invalid action for buy execution" / "... sell execution"
  \<^item> \<open>InvalidPrice\<close>: "Invalid price for buy order" / "... sell order"
  \<^item> \<open>MissingQuantity\<close>: "Must specify either quantity or percentage"
  \<^item> \<open>Bought q s p\<close>: "Successfully bought q s at p"
  \<^item> \<open>Sold q s p pnl\<close>: "Successfully sold q s at p, PnL: pnl"
\<close>

datatype message =
    OK
  | InsufficientCash rat rat
  | PositionTooLarge rat
  | PositionTooSmall rat
  | NoHolding string
  | InsufficientShares int int
  | InvalidAction
  | InvalidPrice
  | MissingQuantity
  | Bought int string rat
  | Sold int string rat rat

text \<open>
  A method call either returns a value or raises; both leave the object in some state.
\<close>

datatype 'a outcome = Returned 'a PortfolioManager | Raised py_error PortfolioManager

definition INITIAL_BUDGET :: rat where
  "INITIAL_BUDGET = 100000"

definition MAX_POSITION_SIZE :: rat where
  "MAX_POSITION_SIZE = 3 / 10"

definition MIN_POSITION_SIZE :: rat where
  "MIN_POSITION_SIZE = 5 / 100"

definition BUY_CONFIDENCE_THRESHOLD :: rat where
  "BUY_CONFIDENCE_THRESHOLD = 70"

definition SELL_CONFIDENCE_THRESHOLD :: rat where
  "SELL_CONFIDENCE_THRESHOLD = 60"

definition STOP_LOSS_PERCENTAGE :: rat where
  "STOP_LOSS_PERCENTAGE = 5 / 100"

definition TAKE_PROFIT_PERCENTAGE :: rat where
  "TAKE_PROFIT_PERCENTAGE = 15 / 100"

text \<open>Python's \<open>int(x)\<close> on a float: truncation towards zero.\<close>

definition py_int :: "rat \<Rightarrow> int" where
  "py_int x = (if 0 \<le> x then \<lfloor>x\<rfloor> else \<lceil>x\<rceil>)"

section \<open>The ledger (portfolio\_manager.py)\<close>

text \<open>\<open>__init__\<close>: \<open>initial_budget or TradingConfig.INITIAL_BUDGET\<close>.\<close>

definition PortfolioManager_init :: "rat option \<Rightarrow> PortfolioManager" where
  "PortfolioManager_init initial_budget_arg =
     (let b = (case initial_budget_arg of
                 None \<Rightarrow> INITIAL_BUDGET
               | Some x \<Rightarrow> if x = 0 then INITIAL_BUDGET else x)
      in \<lparr>initial_budget = b, available_cash = b, holdings = [],
          trade_history = [], total_pnl = 0, total_pnl_percentage = 0\<rparr>)"

definition holding_info :: "Holding \<Rightarrow> HoldingInfo" where
  "holding_info h =
     \<lparr>hi_quantity = quantity h, hi_avg_price = avg_price h,
      hi_current_price = current_price h, hi_current_value = current_value h,
      hi_unrealized_pnl = unrealized_pnl h,
      hi_unrealized_pnl_percentage = unrealized_pnl_percentage h,
      hi_percentage_of_portfolio = percentage_of_portfolio h\<rparr>"

text \<open>
  \<open>get_portfolio_state\<close> reads the object and, when \<open>total_invested > 0\<close>, stores the
  percentage in \<open>self.total_pnl_percentage\<close>: it returns the state value and the object.
\<close>

definition get_portfolio_state :: "PortfolioManager \<Rightarrow> PortfolioState \<times> PortfolioManager" where
  "get_portfolio_state self =
     (let (total_value, holdings_dict) =
            foldl (\<lambda>(tv, d) (symb, holding).
                     (tv + current_value holding, AList.update symb (holding_info holding) d))
                  (available_cash self, []) (holdings self);
          total_invested = initial_budget self - available_cash self;
          self1 = (if total_invested > 0
                   then self\<lparr>total_pnl_percentage := (total_pnl self / total_invested) * 100\<rparr>
                   else self)
      in (\<lparr>ps_total_budget = initial_budget self1,
           ps_available_cash = available_cash self1,
           ps_total_value = total_value,
           ps_holdings = holdings_dict,
           ps_total_pnl = total_pnl self1,
           ps_total_pnl_percentage = total_pnl_percentage self1\<rparr>, self1))"

text \<open>
  \<open>update_holding_price\<close> has no \<open>return\<close> statement and no branch that raises: every call
  returns \<open>None\<close> (here \<open>()\<close>). Both divisions are guarded by a \<open>> 0\<close> test.
\<close>

definition update_holding_price :: "PortfolioManager \<Rightarrow> string \<Rightarrow> rat \<Rightarrow> unit outcome" where
  "update_holding_price self symb price =
     (case map_of (holdings self) symb of
        None \<Rightarrow> Returned () self
      | Some holding \<Rightarrow>
          (let h1 = holding\<lparr>current_price := price\<rparr>;
               h2 = h1\<lparr>current_value := of_int (quantity h1) * price\<rparr>;
               h3 = h2\<lparr>unrealized_pnl :=
                         current_value h2 - of_int (quantity h2) * avg_price h2\<rparr>;
               h4 = (if of_int (quantity h3) * avg_price h3 > 0
                     then h3\<lparr>unrealized_pnl_percentage :=
                            (unrealized_pnl h3 / (of_int (quantity h3) * avg_price h3)) * 100\<rparr>
                     else h3);
               self1 = self\<lparr>holdings := AList.update symb h4 (holdings self)\<rparr>;
               (portfolio_state, self2) = get_portfolio_state self1;
               h5 = (if ps_total_value portfolio_state > 0
                     then h4\<lparr>percentage_of_portfolio :=
                            (current_value h4 / ps_total_value portfolio_state) * 100\<rparr>
                     else h4)
           in Returned () (self2\<lparr>holdings := AList.update symb h5 (holdings self2)\<rparr>)))"

definition can_buy :: "PortfolioManager \<Rightarrow> string \<Rightarrow> int \<Rightarrow> rat \<Rightarrow> (bool \<times> message) outcome" where
  "can_buy self symb qty price =
     (let total_cost = of_int qty * price
      in if total_cost > available_cash self
         then Returned (False, InsufficientCash total_cost (available_cash self)) self
         else
           (let (portfolio_state, self1) = get_portfolio_state self
            in if ps_total_value portfolio_state = 0 then Raised ZeroDivisionError self1
               else
                 (let position_percentage = (total_cost / ps_total_value portfolio_state) * 100
                  in if position_percentage > MAX_POSITION_SIZE * 100
                     then Returned (False, PositionTooLarge position_percentage) self1
                     else if position_percentage < MIN_POSITION_SIZE * 100
                     then Returned (False, PositionTooSmall position_percentage) self1
                     else Returned (True, OK) self1)))"

definition can_sell :: "PortfolioManager \<Rightarrow> string \<Rightarrow> int \<Rightarrow> bool \<times> message" where
  "can_sell self symb qty =
     (case map_of (holdings self) symb of
        None \<Rightarrow> (False, NoHolding symb)
      | Some holding \<Rightarrow>
          if qty > quantity holding
          then (False, InsufficientShares qty (quantity holding))
          else (True, OK))"

definition update_portfolio_percentages :: "PortfolioManager \<Rightarrow> PortfolioManager" where
  "update_portfolio_percentages self =
     (let (portfolio_state, self1) = get_portfolio_state self
      in if ps_total_value portfolio_state > 0
         then self1\<lparr>holdings :=
                map (\<lambda>(symb, holding).
                       (symb, holding\<lparr>percentage_of_portfolio :=
                          (current_value holding / ps_total_value portfolio_state) * 100\<rparr>))
                    (holdings self1)\<rparr>
         else self1)"

definition execute_buy :: "PortfolioManager \<Rightarrow> TradeRequest \<Rightarrow> (bool \<times> message) outcome" where
  "execute_buy self trade_request =
     (if tr_action trade_request \<noteq> BUY then Returned (False, InvalidAction) self
      else
        (let symb = tr_symbol trade_request;
             price = (case tr_price trade_request of None \<Rightarrow> 0 | Some p \<Rightarrow> p)
         in if price \<le> 0 then Returned (False, InvalidPrice) self
            else
              (case (case tr_percentage trade_request of
                       Some pct \<Rightarrow>
                         if pct \<noteq> 0
                         then Some (py_int ((available_cash self * (pct / 100)) / price))
                         else (case tr_quantity trade_request of
                                 Some q \<Rightarrow> if q \<noteq> 0 then Some q else None
                               | None \<Rightarrow> None)
                     | None \<Rightarrow>
                         (case tr_quantity trade_request of
                            Some q \<Rightarrow> if q \<noteq> 0 then Some q else None
                          | None \<Rightarrow> None)) of
                 None \<Rightarrow> Returned (False, MissingQuantity) self
               | Some qty \<Rightarrow>
                   (case can_buy self symb qty price of
                      Raised e self1 \<Rightarrow> Raised e self1
                    | Returned (ok, msg) self1 \<Rightarrow>
                        if \<not> ok then Returned (False, msg) self1
                        else
                          (let total_cost = of_int qty * price;
                               self2 = self1\<lparr>available_cash := available_cash self1 - total_cost\<rparr>
                           in case map_of (holdings self2) symb of
                                Some holding \<Rightarrow>
                                  (let total_quantity = quantity holding + qty;
                                       total_cost_basis =
                                         of_int (quantity holding) * avg_price holding + total_cost
                                   in if total_quantity = 0 then Raised ZeroDivisionError self2
                                      else
                                        (let holding1 = holding
                                               \<lparr>avg_price := total_cost_basis / of_int total_quantity,
                                                quantity := total_quantity,
                                                current_price := price,
                                                current_value := of_int total_quantity * price\<rparr>;
                                             self3 = self2\<lparr>holdings :=
                                                       AList.update symb holding1 (holdings self2)\<rparr>;
                                             self4 = update_portfolio_percentages self3
                                         in Returned (True, Bought qty symb price)
                                              (self4\<lparr>trade_history :=
                                                        trade_history self4 @ [trade_request]\<rparr>)))
                              | None \<Rightarrow>
                                  (let self3 = self2\<lparr>holdings :=
                                         AList.update symb
                                           \<lparr>symbol = symb, quantity = qty, avg_price = price,
                                            current_price = price,
                                            current_value = of_int qty * price,
                                            unrealized_pnl = 0,
                                            unrealized_pnl_percentage = 0,
                                            percentage_of_portfolio = 0\<rparr>
                                           (holdings self2)\<rparr>;
                                       self4 = update_portfolio_percentages self3
                                   in Returned (True, Bought qty symb price)
                                        (self4\<lparr>trade_history :=
                                                  trade_history self4 @ [trade_request]\<rparr>)))))))"

definition execute_sell :: "PortfolioManager \<Rightarrow> TradeRequest \<Rightarrow> (bool \<times> message) outcome" where
  "execute_sell self trade_request =
     (if tr_action trade_request \<noteq> SELL then Returned (False, InvalidAction) self
      else
        (let symb = tr_symbol trade_request;
             price = (case tr_price trade_request of None \<Rightarrow> 0 | Some p \<Rightarrow> p)
         in if price \<le> 0 then Returned (False, InvalidPrice) self
            else
              (case map_of (holdings self) symb of
                 None \<Rightarrow> Returned (False, NoHolding symb) self
               | Some holding \<Rightarrow>
                   (case (case tr_percentage trade_request of
                            Some pct \<Rightarrow>
                              if pct \<noteq> 0
                              then Some (py_int (of_int (quantity holding) * (pct / 100)))
                              else (case tr_quantity trade_request of
                                      Some q \<Rightarrow> if q \<noteq> 0 then Some q else None
                                    | None \<Rightarrow> None)
                          | None \<Rightarrow>
                              (case tr_quantity trade_request of
                                 Some q \<Rightarrow> if q \<noteq> 0 then Some q else None
                               | None \<Rightarrow> None)) of
                      None \<Rightarrow> Returned (False, MissingQuantity) self
                    | Some qty \<Rightarrow>
                        (case can_sell self symb qty of
                           (ok, msg) \<Rightarrow>
                             if \<not> ok then Returned (False, msg) self
                             else
                               (let total_proceeds = of_int qty * price;
                                    self1 = self\<lparr>available_cash :=
                                                  available_cash self + total_proceeds\<rparr>;
                                    cost_basis = of_int qty * avg_price holding;
                                    realized_pnl = total_proceeds - cost_basis;
                                    self2 = self1\<lparr>total_pnl := total_pnl self1 + realized_pnl\<rparr>;
                                    h1 = holding\<lparr>quantity := quantity holding - qty\<rparr>;
                                    self3 =
                                      (if quantity h1 = 0
                                       then self2\<lparr>holdings := AList.delete symb (holdings self2)\<rparr>
                                       else
                                         (let h2 = h1\<lparr>current_value := of_int (quantity h1) * price\<rparr>;
                                              h3 = h2\<lparr>unrealized_pnl :=
                                                        current_value h2
                                                        - of_int (quantity h2) * avg_price h2\<rparr>;
                                              h4 = (if of_int (quantity h3) * avg_price h3 > 0
                                                    then h3\<lparr>unrealized_pnl_percentage :=
                                                           (unrealized_pnl h3
                                                            / (of_int (quantity h3) * avg_price h3))
                                                           * 100\<rparr>
                                                    else h3)
                                          in self2\<lparr>holdings :=
                                                     AList.update symb h4 (holdings self2)\<rparr>));
                                    self4 = update_portfolio_percentages self3
                                in Returned (True, Sold qty symb price realized_pnl)
                                     (self4\<lparr>trade_history :=
                                               trade_history self4 @ [trade_request]\<rparr>)))))))"

section \<open>The decision aggregator (main\_agent.py)\<close>

text \<open>
  An \<open>AgentDecision\<close> with the fields the aggregation reads. The fields \<open>agent_type\<close>,
  \<open>reasoning\<close> and \<open>recommendations\<close> only feed the free-text \<open>reasoning\<close> of the result,
  which the model leaves out.
\<close>

record AgentDecision =
  decision :: DecisionType
  confidence :: rat
  risk_assessment :: "RiskLevel option"
  position_size :: "rat option"

text \<open>Of \<open>AnalysisData\<close>, \<open>_make_final_decision\<close> reads the symbol and the current price.\<close>

record AnalysisData =
  ad_symbol :: string
  ad_current_price :: rat

record MainAgentDecision =
  final_action :: ActionType
  md_symbol :: string
  md_quantity :: "int option"
  md_percentage :: "rat option"
  md_price :: "rat option"
  md_confidence :: rat
  md_agent_decisions :: "AgentDecision list"
  md_risk_assessment :: RiskLevel
  md_position_size :: rat
  stop_loss :: "rat option"
  take_profit :: "rat option"
  next_interval :: "string option"

text \<open>
  \<open>_calculate_position_size\<close>. The parameter \<open>portfolio_state\<close> is a dictionary read with
  \<open>.get('available_cash', 0)\<close> and \<open>.get('total_value', 1)\<close>; the division by
  \<open>total_value\<close> raises when it is zero.
\<close>

definition calculate_position_size ::
    "AgentDecision list \<Rightarrow> (string \<rightharpoonup> rat) \<Rightarrow> py_error + rat" where
  "calculate_position_size agent_decisions portfolio_state =
     (if agent_decisions = [] then Inr 10
      else
        (let total_position_size =
               sum_list (map (\<lambda>d. case position_size d of
                                      None \<Rightarrow> 10
                                    | Some p \<Rightarrow> if p = 0 then 10 else p) agent_decisions);
             avg_position_size = total_position_size / of_nat (length agent_decisions);
             cash = (case portfolio_state ''available_cash'' of None \<Rightarrow> 0 | Some c \<Rightarrow> c);
             total_value = (case portfolio_state ''total_value'' of None \<Rightarrow> 1 | Some v \<Rightarrow> v)
         in if total_value = 0 then Inl ZeroDivisionError
            else
              (let cash_percentage = (cash / total_value) * 100;
                   avg1 = (if cash_percentage < 20 then avg_position_size * (5 / 10)
                           else if cash_percentage > 80 then avg_position_size * (12 / 10)
                           else avg_position_size);
                   avg2 = max avg1 (MIN_POSITION_SIZE * 100);
                   avg3 = min avg2 (MAX_POSITION_SIZE * 100)
               in Inr avg3)))"

fun risk_scores :: "RiskLevel \<Rightarrow> rat" where
  "risk_scores VERY_LOW = 1"
| "risk_scores LOW = 2"
| "risk_scores MEDIUM = 3"
| "risk_scores HIGH = 4"
| "risk_scores VERY_HIGH = 5"

definition determine_risk_level :: "AgentDecision list \<Rightarrow> RiskLevel" where
  "determine_risk_level agent_decisions =
     (if agent_decisions = [] then MEDIUM
      else
        (let total_risk_score =
               foldl (\<lambda>total d. case risk_assessment d of
                                   Some r \<Rightarrow> total + risk_scores r
                                 | None \<Rightarrow> total + 3) 0 agent_decisions;
             avg_risk_score = total_risk_score / of_nat (length agent_decisions)
         in if avg_risk_score \<le> 15 / 10 then VERY_LOW
            else if avg_risk_score \<le> 25 / 10 then LOW
            else if avg_risk_score \<le> 35 / 10 then MEDIUM
            else if avg_risk_score \<le> 45 / 10 then HIGH
            else VERY_HIGH))"

definition calculate_risk_levels :: "rat \<Rightarrow> RiskLevel \<Rightarrow> rat option \<times> rat option" where
  "calculate_risk_levels price risk_level =
     (let (stop_loss_pct, take_profit_pct) =
            (case risk_level of
               VERY_LOW \<Rightarrow> (STOP_LOSS_PERCENTAGE * (5 / 10), TAKE_PROFIT_PERCENTAGE * (15 / 10))
             | LOW \<Rightarrow> (STOP_LOSS_PERCENTAGE * (75 / 100), TAKE_PROFIT_PERCENTAGE * (125 / 100))
             | MEDIUM \<Rightarrow> (STOP_LOSS_PERCENTAGE, TAKE_PROFIT_PERCENTAGE)
             | HIGH \<Rightarrow> (STOP_LOSS_PERCENTAGE * (125 / 100), TAKE_PROFIT_PERCENTAGE * (75 / 100))
             | VERY_HIGH \<Rightarrow> (STOP_LOSS_PERCENTAGE * (15 / 10), TAKE_PROFIT_PERCENTAGE * (5 / 10)))
      in (Some (price * (1 - stop_loss_pct)), Some (price * (1 + take_profit_pct))))"

definition determine_next_interval :: "ActionType \<Rightarrow> rat \<Rightarrow> string" where
  "determine_next_interval action conf =
     (if action = BUY \<and> conf > 80 then ''1hour''
      else if action = SELL \<and> conf > 80 then ''1hour''
      else if conf > 70 then ''5min''
      else if conf > 50 then ''15min''
      else ''1hour'')"

text \<open>
  \<open>_make_final_decision\<close>. The loop over the votes carries
  \<open>(buy_votes, sell_votes, hold_votes, total_confidence, weighted_confidence)\<close>.
\<close>

definition make_final_decision ::
    "AnalysisData \<Rightarrow> AgentDecision list \<Rightarrow> (string \<rightharpoonup> rat) \<Rightarrow> py_error + MainAgentDecision" where
  "make_final_decision analysis_data agent_decisions portfolio_state =
     (let (buy_votes, sell_votes, hold_votes, total_confidence, weighted_confidence) =
            foldl (\<lambda>(b, s, h, tc, wc) d.
                     if decision d \<in> {STRONG_BUY, DT_BUY}
                     then (b + 1, s, h, tc + confidence d, wc + confidence d * (12 / 10))
                     else if decision d \<in> {STRONG_SELL, DT_SELL}
                     then (b, s + 1, h, tc + confidence d, wc + confidence d * (11 / 10))
                     else (b, s, h + 1, tc + confidence d, wc + confidence d))
                  (0 :: nat, 0 :: nat, 0 :: nat, 0 :: rat, 0 :: rat) agent_decisions;
          avg_confidence =
            (if agent_decisions \<noteq> [] then total_confidence / of_nat (length agent_decisions)
             else 0);
          weighted_avg_confidence =
            (if agent_decisions \<noteq> [] then weighted_confidence / of_nat (length agent_decisions)
             else 0);
          action =
            (if buy_votes > sell_votes \<and> buy_votes > hold_votes
             then (if weighted_avg_confidence \<ge> BUY_CONFIDENCE_THRESHOLD then BUY else HOLD)
             else if sell_votes > buy_votes \<and> sell_votes > hold_votes
             then (if weighted_avg_confidence \<ge> SELL_CONFIDENCE_THRESHOLD then SELL else HOLD)
             else HOLD)
      in case calculate_position_size agent_decisions portfolio_state of
           Inl e \<Rightarrow> Inl e
         | Inr psize \<Rightarrow>
             (let risk_level = determine_risk_level agent_decisions;
                  (sl, tp) = calculate_risk_levels (ad_current_price analysis_data) risk_level;
                  next_iv = determine_next_interval action weighted_avg_confidence
              in Inr \<lparr>final_action = action,
                      md_symbol = ad_symbol analysis_data,
                      md_quantity = None,
                      md_percentage = None,
                      md_price = None,
                      md_confidence = weighted_avg_confidence,
                      md_agent_decisions = agent_decisions,
                      md_risk_assessment = risk_level,
                      md_position_size = psize,
                      stop_loss = sl,
                      take_profit = tp,
                      next_interval = Some next_iv\<rparr>))"

section \<open>Call sequences and derived quantities\<close>

text \<open>
  A caller's sequence of \<open>execute_buy\<close>/\<open>execute_sell\<close> calls on one object.
  \<open>all_succeed\<close> runs the sequence and gives the final object when every call returned
  \<open>(True, _)\<close>, \<open>None\<close> as soon as one call returned \<open>(False, _)\<close> or raised.
\<close>

datatype order_call = ExecuteBuy TradeRequest | ExecuteSell TradeRequest

fun call :: "PortfolioManager \<Rightarrow> order_call \<Rightarrow> (bool \<times> message) outcome" where
  "call self (ExecuteBuy t) = execute_buy self t"
| "call self (ExecuteSell t) = execute_sell self t"

fun all_succeed :: "PortfolioManager \<Rightarrow> order_call list \<Rightarrow> PortfolioManager option" where
  "all_succeed self [] = Some self"
| "all_succeed self (c # cs) =
     (case call self c of
        Returned (ok, msg) self1 \<Rightarrow> if ok then all_succeed self1 cs else None
      | Raised e self1 \<Rightarrow> None)"

text \<open>The cost basis of one holding, and of all open holdings.\<close>

definition basis_of :: "Holding \<Rightarrow> rat" where
  "basis_of h = of_int (quantity h) * avg_price h"

definition cost_basis :: "PortfolioManager \<Rightarrow> rat" where
  "cost_basis self = sum_list (map (\<lambda>kv. basis_of (snd kv)) (holdings self))"

text \<open>The invariant behind conservation: keys are unique and the books balance.\<close>

definition conserved :: "PortfolioManager \<Rightarrow> bool" where
  "conserved self \<longleftrightarrow>
     distinct (map fst (holdings self)) \<and>
     available_cash self + cost_basis self - total_pnl self = initial_budget self"

text \<open>
  Any sequence of calls on one object, price updates included. \<open>run_calls\<close> gives the
  object after the calls when each of them returned (with success or with a rejection),
  \<open>None\<close> when one raised.
\<close>

datatype ledger_call =
    CallBuy TradeRequest
  | CallSell TradeRequest
  | CallUpdatePrice string rat

fun run_calls :: "PortfolioManager \<Rightarrow> ledger_call list \<Rightarrow> PortfolioManager option" where
  "run_calls self [] = Some self"
| "run_calls self (CallBuy t # cs) =
     (case execute_buy self t of
        Returned r self1 \<Rightarrow> run_calls self1 cs
      | Raised e self1 \<Rightarrow> None)"
| "run_calls self (CallSell t # cs) =
     (case execute_sell self t of
        Returned r self1 \<Rightarrow> run_calls self1 cs
      | Raised e self1 \<Rightarrow> None)"
| "run_calls self (CallUpdatePrice symb price # cs) =
     (case update_holding_price self symb price of
        Returned r self1 \<Rightarrow> run_calls self1 cs
      | Raised e self1 \<Rightarrow> None)"

text \<open>The stored percentage is the one \<open>get_portfolio_state\<close> would store.\<close>

definition pct_fresh :: "PortfolioManager \<Rightarrow> bool" where
  "pct_fresh self \<longleftrightarrow>
     (initial_budget self - available_cash self > 0 \<longrightarrow>
        total_pnl_percentage self
          = total_pnl self / (initial_budget self - available_cash self) * 100)"


text \<open>
  Calls whose numbers have the sign a caller means: a price update with a positive price, a
  sell whose quantity and percentage, when given, are not negative. Buys are unrestricted.
  \<open>nonneg_ledger\<close> is the matching invariant of the ledger.
\<close>

fun nonneg_call :: "ledger_call \<Rightarrow> bool" where
  "nonneg_call (CallBuy t) = True"
| "nonneg_call (CallSell t) =
     ((case tr_percentage t of None \<Rightarrow> True | Some pct \<Rightarrow> 0 \<le> pct) \<and>
      (case tr_quantity t of None \<Rightarrow> True | Some q \<Rightarrow> 0 \<le> q))"
| "nonneg_call (CallUpdatePrice symb price) = (0 < price)"

definition nonneg_ledger :: "PortfolioManager \<Rightarrow> bool" where
  "nonneg_ledger self \<longleftrightarrow>
     0 \<le> available_cash self \<and>
     (\<forall>kv \<in> set (holdings self). 0 < quantity (snd kv) \<and> 0 < current_value (snd kv)) \<and>
     (0 < available_cash self \<or> holdings self \<noteq> [])"


section \<open>Properties of the ledger\<close>

lemma get_portfolio_state_fields:
  "available_cash (snd (get_portfolio_state self)) = available_cash self"
  "holdings (snd (get_portfolio_state self)) = holdings self"
  "total_pnl (snd (get_portfolio_state self)) = total_pnl self"
  "trade_history (snd (get_portfolio_state self)) = trade_history self"
  "initial_budget (snd (get_portfolio_state self)) = initial_budget self"
  by (simp_all add: get_portfolio_state_def Let_def split_beta)









lemma conserved_gps:
  "conserved (snd (get_portfolio_state self)) = conserved self"
  by (simp add: conserved_def cost_basis_def get_portfolio_state_fields)







lemma can_buy_success:
  "can_buy self symb qty price = Returned (True, msg) self1 \<Longrightarrow>
     self1 = snd (get_portfolio_state self)"
  by (auto simp: can_buy_def Let_def split_beta split: if_splits)









lemma get_portfolio_state_idem:
  "get_portfolio_state (snd (get_portfolio_state self)) = get_portfolio_state self"
  by (simp add: get_portfolio_state_def Let_def split_beta)

lemma can_buy_state:
  "can_buy self symb qty price = Returned r self1 \<Longrightarrow>
     self1 = self \<or> self1 = snd (get_portfolio_state self)"
  by (auto simp: can_buy_def Let_def split_beta split: if_splits)

lemma execute_buy_failed_state:
  "execute_buy self trade_request = Returned (False, msg) self1 \<Longrightarrow>
     self1 = self \<or> self1 = snd (get_portfolio_state self)"
  unfolding execute_buy_def Let_def
  by (auto split: if_splits option.splits outcome.splits prod.splits dest: can_buy_state)

lemma execute_sell_failed_state:
  "execute_sell self trade_request = Returned (False, msg) self1 \<Longrightarrow> self1 = self"
  unfolding execute_sell_def Let_def
  by (auto split: if_splits option.splits prod.splits)

text \<open>
  C2. Atomicity of rejected orders. When \<open>execute_buy\<close> or \<open>execute_sell\<close> returns
  \<open>(False, reason)\<close>, available cash, the holdings (every field of every holding), realized
  PnL, the trade history and the initial budget are as before the call, and
  \<open>get_portfolio_state\<close> returns the same value as it did before the call.
\<close>

theorem rejected_order_is_atomic:
  assumes "execute_buy self trade_request = Returned (False, msg) self1 \<or>
           execute_sell self trade_request = Returned (False, msg) self1"
  shows "available_cash self1 = available_cash self \<and>
         holdings self1 = holdings self \<and>
         total_pnl self1 = total_pnl self \<and>
         trade_history self1 = trade_history self \<and>
         initial_budget self1 = initial_budget self \<and>
         fst (get_portfolio_state self1) = fst (get_portfolio_state self)"
proof -
  from assms have "self1 = self \<or> self1 = snd (get_portfolio_state self)"
    using execute_buy_failed_state execute_sell_failed_state by blast
  then show ?thesis
    by (auto simp: get_portfolio_state_fields get_portfolio_state_idem)
qed


theorem rejected_order_is_atomic_witness:
  "execute_buy (PortfolioManager_init (Some 100000))
     \<lparr>tr_action = BUY, tr_symbol = ''RELIANCE'', tr_quantity = Some 10,
      tr_percentage = None, tr_price = Some 4000, tr_stop_loss = None,
      tr_take_profit = None, tr_reason = None, tr_confidence = None\<rparr>
     = Returned (False, PositionTooLarge 40) (PortfolioManager_init (Some 100000)) \<and>
   fst (get_portfolio_state (PortfolioManager_init (Some 100000)))
     = \<lparr>ps_total_budget = 100000, ps_available_cash = 100000, ps_total_value = 100000,
        ps_holdings = [], ps_total_pnl = 0, ps_total_pnl_percentage = 0\<rparr> \<and>
   (execute_sell (PortfolioManager_init (Some 100000))
     \<lparr>tr_action = SELL, tr_symbol = ''RELIANCE'', tr_quantity = Some 5,
      tr_percentage = None, tr_price = Some 1600, tr_stop_loss = None,
      tr_take_profit = None, tr_reason = None, tr_confidence = None\<rparr>
   = Returned (False, NoHolding ''RELIANCE'') (PortfolioManager_init (Some 100000)))"
proof -
  have h: "execute_buy (PortfolioManager_init (Some 100000))
     \<lparr>tr_action = BUY, tr_symbol = ''RELIANCE'', tr_quantity = Some 10,
      tr_percentage = None, tr_price = Some 4000, tr_stop_loss = None,
      tr_take_profit = None, tr_reason = None, tr_confidence = None\<rparr>
     = Returned (False, PositionTooLarge 40) (PortfolioManager_init (Some 100000))"
    by code_simp
  have g: "fst (get_portfolio_state (PortfolioManager_init (Some 100000)))
     = \<lparr>ps_total_budget = 100000, ps_available_cash = 100000, ps_total_value = 100000,
        ps_holdings = [], ps_total_pnl = 0, ps_total_pnl_percentage = 0\<rparr>"
    by code_simp
  from rejected_order_is_atomic[OF disjI1, OF h] h g
  have w1: "execute_buy (PortfolioManager_init (Some 100000))
     \<lparr>tr_action = BUY, tr_symbol = ''RELIANCE'', tr_quantity = Some 10,
      tr_percentage = None, tr_price = Some 4000, tr_stop_loss = None,
      tr_take_profit = None, tr_reason = None, tr_confidence = None\<rparr>
     = Returned (False, PositionTooLarge 40) (PortfolioManager_init (Some 100000)) \<and>
   fst (get_portfolio_state (PortfolioManager_init (Some 100000)))
     = \<lparr>ps_total_budget = 100000, ps_available_cash = 100000, ps_total_value = 100000,
        ps_holdings = [], ps_total_pnl = 0, ps_total_pnl_percentage = 0\<rparr>"
    by simp
  have w7:
    "execute_sell (PortfolioManager_init (Some 100000))
       \<lparr>tr_action = SELL, tr_symbol = ''RELIANCE'', tr_quantity = Some 5,
        tr_percentage = None, tr_price = Some 1600, tr_stop_loss = None,
        tr_take_profit = None, tr_reason = None, tr_confidence = None\<rparr>
     = Returned (False, NoHolding ''RELIANCE'') (PortfolioManager_init (Some 100000))"
  proof -
    have h: "execute_sell (PortfolioManager_init (Some 100000))
       \<lparr>tr_action = SELL, tr_symbol = ''RELIANCE'', tr_quantity = Some 5,
        tr_percentage = None, tr_price = Some 1600, tr_stop_loss = None,
        tr_take_profit = None, tr_reason = None, tr_confidence = None\<rparr>
     = Returned (False, NoHolding ''RELIANCE'') (PortfolioManager_init (Some 100000))"
      by code_simp
    from rejected_order_is_atomic[OF disjI2, OF h] h show ?thesis
      by simp
  qed
  from w1 w7 show ?thesis by blast
qed

lemma pct_fresh_iff: "pct_fresh self \<longleftrightarrow> snd (get_portfolio_state self) = self"
  by (auto simp: pct_fresh_def get_portfolio_state_def Let_def split_beta)
     (metis PortfolioManager.select_convs(6) PortfolioManager.surjective PortfolioManager.update_convs(6))

lemma pct_fresh_gps: "pct_fresh (snd (get_portfolio_state self))"
  by (simp add: pct_fresh_def get_portfolio_state_def Let_def split_beta)

lemma pct_fresh_upd:
  "pct_fresh (self\<lparr>holdings := hs\<rparr>) = pct_fresh self"
  "pct_fresh (self\<lparr>trade_history := th\<rparr>) = pct_fresh self"
  by (simp_all add: pct_fresh_def)

lemma pct_fresh_upp: "pct_fresh (update_portfolio_percentages self)"
  by (simp add: update_portfolio_percentages_def split_beta pct_fresh_upd pct_fresh_gps)

lemma pct_fresh_init: "pct_fresh (PortfolioManager_init b)"
  by (simp add: pct_fresh_def PortfolioManager_init_def Let_def)

lemma execute_buy_pct_fresh:
  "execute_buy self t = Returned r self1 \<Longrightarrow> pct_fresh self \<Longrightarrow> pct_fresh self1"
  unfolding execute_buy_def Let_def
  by (auto simp: pct_fresh_upd pct_fresh_upp pct_fresh_gps
        split: if_splits option.splits outcome.splits prod.splits dest!: can_buy_state)

lemma execute_sell_pct_fresh:
  "execute_sell self t = Returned r self1 \<Longrightarrow> pct_fresh self \<Longrightarrow> pct_fresh self1"
  unfolding execute_sell_def Let_def
  by (auto simp: pct_fresh_upd pct_fresh_upp split: if_splits option.splits prod.splits)

lemma update_holding_price_pct_fresh:
  "update_holding_price self symb price = Returned r self1 \<Longrightarrow> pct_fresh self \<Longrightarrow> pct_fresh self1"
  unfolding update_holding_price_def Let_def
  by (auto simp: pct_fresh_upd pct_fresh_gps split_beta split: option.splits)

lemma run_calls_pct_fresh:
  "pct_fresh self \<Longrightarrow> run_calls self calls = Some self1 \<Longrightarrow> pct_fresh self1"
proof (induction self calls rule: run_calls.induct)
  case (1 self)
  then show ?case by simp
next
  case (2 self t cs)
  then show ?case
    by (auto split: outcome.splits dest: execute_buy_pct_fresh)
next
  case (3 self t cs)
  then show ?case
    by (auto split: outcome.splits dest: execute_sell_pct_fresh)
next
  case (4 self symb price cs)
  then show ?case
    by (auto split: outcome.splits dest: update_holding_price_pct_fresh)
qed

lemma foldl_total_value:
  "fst (foldl (\<lambda>(tv, d) (symb, holding).
                 (tv + current_value holding, AList.update symb (holding_info holding) d))
              (a, d0) hs)
     = a + sum_list (map (\<lambda>kv. current_value (snd kv)) hs)"
  by (induction hs arbitrary: a d0) (auto simp: split_beta)

lemma total_value_eq:
  "ps_total_value (fst (get_portfolio_state self))
     = available_cash self + sum_list (map (\<lambda>kv. current_value (snd kv)) (holdings self))"
  by (simp add: get_portfolio_state_def Let_def split_beta foldl_total_value)

lemma set_update_subset: "set (AList.update k v al) \<subseteq> insert (k, v) (set al)"
  by (induction al) auto

lemma set_delete_subset: "set (AList.delete k al) \<subseteq> set al"
  by (auto simp: AList.delete_eq)

lemma sum_pos_nonneg:
  "(\<forall>kv \<in> set hs. 0 < current_value (snd kv)) \<Longrightarrow>
     0 \<le> sum_list (map (\<lambda>kv. current_value (snd kv)) hs) \<and>
     (hs \<noteq> [] \<longrightarrow> 0 < sum_list (map (\<lambda>kv. current_value (snd kv)) hs))"
  by (induction hs) (auto simp: add_pos_nonneg)

lemma nonneg_total_value:
  "nonneg_ledger self \<Longrightarrow> 0 < ps_total_value (fst (get_portfolio_state self))"
  unfolding total_value_eq nonneg_ledger_def
  using sum_pos_nonneg[of "holdings self"]
  by (cases "holdings self = []") (auto simp: add_nonneg_pos)

lemma nonneg_ledger_gps:
  "nonneg_ledger (snd (get_portfolio_state self)) = nonneg_ledger self"
  by (simp add: nonneg_ledger_def get_portfolio_state_fields)

lemma nonneg_ledger_history:
  "nonneg_ledger (self\<lparr>trade_history := th\<rparr>) = nonneg_ledger self"
  by (simp add: nonneg_ledger_def)

lemma nonneg_ledger_upp:
  "nonneg_ledger (update_portfolio_percentages self) = nonneg_ledger self"
  by (auto simp: nonneg_ledger_def update_portfolio_percentages_def split_beta get_portfolio_state_fields)

lemma can_buy_positive:
  assumes "can_buy self symb qty price = Returned (True, msg) self1" "nonneg_ledger self" "0 < price"
  shows "0 < qty \<and> of_int qty * price \<le> available_cash self"
proof -
  let ?tv = "ps_total_value (fst (get_portfolio_state self))"
  have tv: "0 < ?tv" using assms(2) by (rule nonneg_total_value)
  from assms(1) have le: "of_int qty * price \<le> available_cash self"
    and sh: "\<not> (of_int qty * price / ?tv * 100 < MIN_POSITION_SIZE * 100)"
    by (auto simp: can_buy_def Let_def split_beta split: if_splits)
  from sh have "5 \<le> of_int qty * price / ?tv * 100"
    by (simp add: MIN_POSITION_SIZE_def)
  with tv have "5 * ?tv \<le> of_int qty * price * 100"
    by (simp add: pos_le_divide_eq)
  with tv have "0 < of_int qty * price"
    by linarith
  with assms(3) have "0 < qty"
    by (simp add: zero_less_mult_iff)
  with le show ?thesis by simp
qed


lemma can_buy_accepts:
  assumes "can_buy self symb qty price = Returned (True, msg) self1" "nonneg_ledger self" "0 < price"
  shows "self1 = snd (get_portfolio_state self) \<and> 0 < qty \<and>
         of_int qty * price \<le> available_cash self"
  using can_buy_positive[OF assms] can_buy_success[OF assms(1)] by simp

lemma nonneg_gps_upd:
  "nonneg_ledger (snd (get_portfolio_state self)\<lparr>available_cash := c, holdings := hs\<rparr>)
     = nonneg_ledger (self\<lparr>available_cash := c, holdings := hs\<rparr>)"
  by (simp add: nonneg_ledger_def)

lemma nonneg_update_step:
  assumes "nonneg_ledger self" "0 \<le> c'" "0 < quantity h" "0 < current_value h"
  shows "nonneg_ledger (self\<lparr>available_cash := c', holdings := AList.update k h (holdings self)\<rparr>)"
  using assms set_update_subset[of k h "holdings self"]
  by (auto simp: nonneg_ledger_def)

lemma nonneg_update_step2:
  assumes "nonneg_ledger self" "0 \<le> c'" "0 < quantity h" "0 < current_value h"
  shows "nonneg_ledger (self\<lparr>available_cash := c', total_pnl := p',
                              holdings := AList.update k h (holdings self)\<rparr>)"
  using assms set_update_subset[of k h "holdings self"]
  by (auto simp: nonneg_ledger_def)

lemma nonneg_delete_step:
  assumes "nonneg_ledger self" "0 < c'"
  shows "nonneg_ledger (self\<lparr>available_cash := c', total_pnl := p',
                              holdings := AList.delete k (holdings self)\<rparr>)"
  using assms set_delete_subset[of k "holdings self"]
  by (auto simp: nonneg_ledger_def)

lemma holding_positive:
  "nonneg_ledger self \<Longrightarrow> map_of (holdings self) k = Some h \<Longrightarrow> 0 < quantity h"
  by (auto simp: nonneg_ledger_def dest!: map_of_SomeD)

lemma execute_buy_nonneg:
  assumes "execute_buy self t = Returned r self1" "nonneg_ledger self"
  shows "nonneg_ledger self1"
proof (cases "fst r")
  case False
  with assms(1) have "execute_buy self t = Returned (False, snd r) self1"
    by (cases r) simp
  then have "self1 = self \<or> self1 = snd (get_portfolio_state self)"
    by (rule execute_buy_failed_state)
  with assms(2) show ?thesis by (auto simp: nonneg_ledger_gps)
next
  case True
  with assms(1) have ok: "execute_buy self t = Returned (True, snd r) self1"
    by (cases r) simp
  have hp: "\<forall>h. map_of (holdings self) (tr_symbol t) = Some h \<longrightarrow> 0 < quantity h"
    using holding_positive[OF assms(2)] by blast
  show ?thesis
    using ok assms(2) hp unfolding execute_buy_def Let_def
    by (simp split: if_splits option.splits prod.splits outcome.splits;
        auto simp: nonneg_ledger_history nonneg_ledger_upp nonneg_gps_upd
                  get_portfolio_state_fields
                dest!: can_buy_accepts[OF _ assms(2)]
                intro!: nonneg_update_step[OF assms(2)] simp: zero_less_mult_iff)
qed

lemma py_int_nonneg: "0 \<le> x \<Longrightarrow> 0 \<le> py_int x"
  by (simp add: py_int_def)

lemma execute_sell_nonneg:
  assumes "execute_sell self t = Returned r self1" "nonneg_ledger self" "nonneg_call (CallSell t)"
  shows "nonneg_ledger self1"
proof (cases "fst r")
  case False
  with assms(1) have "execute_sell self t = Returned (False, snd r) self1"
    by (cases r) simp
  then have "self1 = self"
    by (rule execute_sell_failed_state)
  with assms(2) show ?thesis by simp
next
  case True
  with assms(1) have ok: "execute_sell self t = Returned (True, snd r) self1"
    by (cases r) simp
  have hp: "\<forall>h. map_of (holdings self) (tr_symbol t) = Some h \<longrightarrow> 0 < quantity h"
    using holding_positive[OF assms(2)] by blast
  have c0: "0 \<le> available_cash self"
    using assms(2) by (simp add: nonneg_ledger_def)
  show ?thesis
    using ok assms(3) hp c0 unfolding execute_sell_def Let_def can_sell_def
    by (simp split: if_splits option.splits prod.splits;
        auto simp: nonneg_ledger_history nonneg_ledger_upp
                intro!: nonneg_update_step2[OF assms(2)] nonneg_delete_step[OF assms(2)]
                   py_int_nonneg add_nonneg_nonneg add_nonneg_pos mult_nonneg_nonneg
                   mult_pos_pos
                simp: zero_less_mult_iff)
qed


lemma nonneg_holdings_upd:
  assumes "nonneg_ledger self" "\<forall>kv \<in> set hs. 0 < quantity (snd kv) \<and> 0 < current_value (snd kv)"
    "hs \<noteq> []"
  shows "nonneg_ledger (self\<lparr>holdings := hs\<rparr>)"
  using assms by (simp add: nonneg_ledger_def)

lemma update_holding_price_nonneg:
  assumes "update_holding_price self symb price = Returned r self1" "nonneg_ledger self" "0 < price"
  shows "nonneg_ledger self1"
proof (cases "map_of (holdings self) symb")
  case None
  with assms show ?thesis by (simp add: update_holding_price_def)
next
  case (Some holding)
  from assms(2) Some have q: "0 < quantity holding" by (rule holding_positive)
  have old: "\<forall>kv \<in> set (holdings self). 0 < quantity (snd kv) \<and> 0 < current_value (snd kv)"
    using assms(2) by (simp add: nonneg_ledger_def)
  have sub: "\<And>h4 h5. set (AList.update symb h5 (AList.update symb h4 (holdings self)))
               \<subseteq> insert (symb, h5) (insert (symb, h4) (set (holdings self)))"
    using set_update_subset by fastforce
  from assms(1) Some obtain h4 h5 where
    s1: "self1 = snd (get_portfolio_state (self\<lparr>holdings := AList.update symb h4 (holdings self)\<rparr>))
                   \<lparr>holdings := AList.update symb h5 (AList.update symb h4 (holdings self))\<rparr>"
    and h4: "quantity h4 = quantity holding" "current_value h4 = of_int (quantity holding) * price"
    and h5: "quantity h5 = quantity holding" "current_value h5 = of_int (quantity holding) * price"
    by (auto simp: update_holding_price_def Let_def split_beta get_portfolio_state_fields)
  have pos: "0 < of_int (quantity holding) * price"
    using q assms(3) by (simp add: zero_less_mult_iff)
  have all: "\<forall>kv \<in> set (AList.update symb h5 (AList.update symb h4 (holdings self))).
               0 < quantity (snd kv) \<and> 0 < current_value (snd kv)"
    using sub[of h5 h4] old q pos h4 h5 by auto
  have "nonneg_ledger (snd (get_portfolio_state (self\<lparr>holdings := AList.update symb h4 (holdings self)\<rparr>))
                   \<lparr>holdings := AList.update symb h5 (AList.update symb h4 (holdings self))\<rparr>)
        = nonneg_ledger (self\<lparr>holdings := AList.update symb h5 (AList.update symb h4 (holdings self))\<rparr>)"
    by (simp add: nonneg_ledger_def get_portfolio_state_fields)
  with s1 nonneg_holdings_upd[OF assms(2) all] show ?thesis by simp
qed

lemma nonneg_ledger_init: "0 < b \<Longrightarrow> nonneg_ledger (PortfolioManager_init (Some b))"
  by (simp add: nonneg_ledger_def PortfolioManager_init_def)

lemma run_calls_nonneg:
  "nonneg_ledger self \<Longrightarrow> \<forall>c \<in> set calls. nonneg_call c \<Longrightarrow>
     run_calls self calls = Some self1 \<Longrightarrow> nonneg_ledger self1"
proof (induction self calls rule: run_calls.induct)
  case (1 self)
  then show ?case by simp
next
  case (2 self t cs)
  then show ?case
    by (auto split: outcome.splits dest: execute_buy_nonneg)
next
  case (3 self t cs)
  then show ?case
    by (auto split: outcome.splits dest: execute_sell_nonneg)
next
  case (4 self symb price cs)
  then show ?case
    by (auto split: outcome.splits dest: update_holding_price_nonneg)
qed

text \<open>
  What the guards do achieve: from a fresh ledger with a positive budget, under price updates
  with positive prices, arbitrary buy orders and sell orders without negative numbers,
  as long as the calls return, cash stays non-negative and every holding has a positive
  quantity.
\<close>

lemma nonnegativity_for_nonnegative_orders:
  assumes "0 < b" "\<forall>c \<in> set calls. nonneg_call c"
    "run_calls (PortfolioManager_init (Some b)) calls = Some self"
  shows "0 \<le> available_cash self \<and> (\<forall>kv \<in> set (holdings self). 0 < quantity (snd kv))"
  using run_calls_nonneg[OF nonneg_ledger_init[OF assms(1)] assms(2,3)]
  by (simp add: nonneg_ledger_def)

text \<open>
  C3 at a failing input. After buying 10 RELIANCE at 1500 from a budget of 100000, a SELL order
  with quantity -100 at 1500 passes \<open>can_sell\<close> (which only tests \<open>quantity > held\<close>), returns
  success, and leaves available cash at -65000 with 110 shares held.
\<close>

theorem negative_sell_quantity_makes_cash_negative:
  "all_succeed (PortfolioManager_init (Some 100000))
     [ExecuteBuy
       \<lparr>tr_action = BUY, tr_symbol = ''RELIANCE'', tr_quantity = Some 10,
        tr_percentage = None, tr_price = Some 1500, tr_stop_loss = None,
        tr_take_profit = None, tr_reason = None, tr_confidence = None\<rparr>,
      ExecuteSell
       \<lparr>tr_action = SELL, tr_symbol = ''RELIANCE'', tr_quantity = Some (- 100),
        tr_percentage = None, tr_price = Some 1500, tr_stop_loss = None,
        tr_take_profit = None, tr_reason = None, tr_confidence = None\<rparr>]
   = Some
     \<lparr>initial_budget = 100000, available_cash = - 65000,
      holdings = [(''RELIANCE'',
         \<lparr>symbol = ''RELIANCE'', quantity = 110, avg_price = 1500, current_price = 1500,
          current_value = 165000, unrealized_pnl = 0, unrealized_pnl_percentage = 0,
          percentage_of_portfolio = 165\<rparr>)],
      trade_history =
        [\<lparr>tr_action = BUY, tr_symbol = ''RELIANCE'', tr_quantity = Some 10,
        tr_percentage = None, tr_price = Some 1500, tr_stop_loss = None,
        tr_take_profit = None, tr_reason = None, tr_confidence = None\<rparr>,
        \<lparr>tr_action = SELL, tr_symbol = ''RELIANCE'', tr_quantity = Some (- 100),
        tr_percentage = None, tr_price = Some 1500, tr_stop_loss = None,
        tr_take_profit = None, tr_reason = None, tr_confidence = None\<rparr>],
      total_pnl = 0, total_pnl_percentage = 0\<rparr>"
  by code_simp

lemma can_buy_insufficient:
  "of_int qty * price > available_cash self \<Longrightarrow>
     can_buy self symb qty price
       = Returned (False, InsufficientCash (of_int qty * price) (available_cash self)) self"
  by (simp add: can_buy_def Let_def)

lemma can_buy_sized:
  assumes "of_int qty * price \<le> available_cash self"
    "ps_total_value (fst (get_portfolio_state self)) \<noteq> 0"
  shows "can_buy self symb qty price =
     (let share = of_int qty * price / ps_total_value (fst (get_portfolio_state self)) * 100
      in if share > 30 then Returned (False, PositionTooLarge share) (snd (get_portfolio_state self))
         else if share < 5 then Returned (False, PositionTooSmall share) (snd (get_portfolio_state self))
         else Returned (True, OK) (snd (get_portfolio_state self)))"
  using assms
  by (simp add: can_buy_def Let_def split_beta MAX_POSITION_SIZE_def MIN_POSITION_SIZE_def)

lemma can_buy_any_state:
  "can_buy self symb qty price = Returned r self1 \<or>
   can_buy self symb qty price = Raised e self1 \<Longrightarrow>
     self1 = self \<or> self1 = snd (get_portfolio_state self)"
  by (auto simp: can_buy_def Let_def split_beta split: if_splits)

lemma gps_init:
  "get_portfolio_state (PortfolioManager_init (Some 100000))
     = (\<lparr>ps_total_budget = 100000, ps_available_cash = 100000, ps_total_value = 100000,
         ps_holdings = [], ps_total_pnl = 0, ps_total_pnl_percentage = 0\<rparr>,
        PortfolioManager_init (Some 100000))"
  by (simp add: get_portfolio_state_def PortfolioManager_init_def)

lemma can_buy_fresh:
  "can_buy (PortfolioManager_init (Some 100000)) symb qty price =
     (let cost = of_int qty * price
      in if cost > 100000
         then Returned (False, InsufficientCash cost 100000) (PortfolioManager_init (Some 100000))
         else if cost / 1000 > 30
         then Returned (False, PositionTooLarge (cost / 1000)) (PortfolioManager_init (Some 100000))
         else if cost / 1000 < 5
         then Returned (False, PositionTooSmall (cost / 1000)) (PortfolioManager_init (Some 100000))
         else Returned (True, OK) (PortfolioManager_init (Some 100000)))"
proof -
  define cost where "cost = of_int qty * price"
  have "available_cash (PortfolioManager_init (Some 100000)) = 100000"
    by (simp add: PortfolioManager_init_def)
  then show ?thesis
    unfolding can_buy_def gps_init cost_def[symmetric]
    by (simp add: Let_def MAX_POSITION_SIZE_def MIN_POSITION_SIZE_def)
qed

text \<open>
  C4 (as the code has it). \<open>can_buy\<close> checks, in order: the order's cost
  \<open>quantity * price\<close> against available cash (else \<open>InsufficientCash\<close>); then the cost as a
  share of the current total value: above 30 percent \<open>PositionTooLarge\<close>, below 5 percent
  \<open>PositionTooSmall\<close>, otherwise \<open>(True, OK)\<close>. It does not test the sign of the price
  (\<open>execute_buy\<close> does, before it calls \<open>can_buy\<close>). It leaves cash, holdings, realized PnL,
  trade history and budget as they are, and \<open>get_portfolio_state\<close> returns the same value
  afterwards; on every ledger reached from a fresh one by calls that return it leaves the
  whole object as it is. On a fresh ledger of 100000 a cost of 40000 is \<open>PositionTooLarge\<close>, a cost of
  3000 is \<open>PositionTooSmall\<close>, and every cost from 5000 to 30000 passes.
\<close>

theorem can_buy_checks:
  "(of_int qty * price > available_cash self \<longrightarrow>
      can_buy self symb qty price
        = Returned (False, InsufficientCash (of_int qty * price) (available_cash self)) self) \<and>
   (of_int qty * price \<le> available_cash self \<and>
    ps_total_value (fst (get_portfolio_state self)) \<noteq> 0 \<longrightarrow>
      (\<exists>self1. can_buy self symb qty price =
         Returned
           (let share = of_int qty * price / ps_total_value (fst (get_portfolio_state self)) * 100
            in if share > 30 then (False, PositionTooLarge share)
               else if share < 5 then (False, PositionTooSmall share)
               else (True, OK)) self1)) \<and>
   (\<forall>r e self1.
      can_buy self symb qty price = Returned r self1 \<or>
      can_buy self symb qty price = Raised e self1 \<longrightarrow>
        available_cash self1 = available_cash self \<and>
        holdings self1 = holdings self \<and>
        total_pnl self1 = total_pnl self \<and>
        trade_history self1 = trade_history self \<and>
        initial_budget self1 = initial_budget self \<and>
        fst (get_portfolio_state self1) = fst (get_portfolio_state self)) \<and>
   (of_int qty * price = 40000 \<longrightarrow>
      can_buy (PortfolioManager_init (Some 100000)) symb qty price
        = Returned (False, PositionTooLarge 40) (PortfolioManager_init (Some 100000))) \<and>
   (of_int qty * price = 3000 \<longrightarrow>
      can_buy (PortfolioManager_init (Some 100000)) symb qty price
        = Returned (False, PositionTooSmall 3) (PortfolioManager_init (Some 100000))) \<and>
   (5000 \<le> of_int qty * price \<and> of_int qty * price \<le> 30000 \<longrightarrow>
      can_buy (PortfolioManager_init (Some 100000)) symb qty price
        = Returned (True, OK) (PortfolioManager_init (Some 100000))) \<and>
   (\<forall>b calls. run_calls (PortfolioManager_init b) calls = Some self \<longrightarrow>
      (\<forall>r e self1.
         can_buy self symb qty price = Returned r self1 \<or>
         can_buy self symb qty price = Raised e self1 \<longrightarrow> self1 = self))"
proof -
  have a: "of_int qty * price > available_cash self \<longrightarrow>
      can_buy self symb qty price
        = Returned (False, InsufficientCash (of_int qty * price) (available_cash self)) self"
    by (simp add: can_buy_insufficient)
  have b: "of_int qty * price \<le> available_cash self \<and>
    ps_total_value (fst (get_portfolio_state self)) \<noteq> 0 \<longrightarrow>
      (\<exists>self1. can_buy self symb qty price =
         Returned
           (let share = of_int qty * price / ps_total_value (fst (get_portfolio_state self)) * 100
            in if share > 30 then (False, PositionTooLarge share)
               else if share < 5 then (False, PositionTooSmall share)
               else (True, OK)) self1)"
    by (simp add: can_buy_sized Let_def)
  have c: "\<forall>r e self1.
      can_buy self symb qty price = Returned r self1 \<or>
      can_buy self symb qty price = Raised e self1 \<longrightarrow>
        available_cash self1 = available_cash self \<and>
        holdings self1 = holdings self \<and>
        total_pnl self1 = total_pnl self \<and>
        trade_history self1 = trade_history self \<and>
        initial_budget self1 = initial_budget self \<and>
        fst (get_portfolio_state self1) = fst (get_portfolio_state self)"
  proof (intro allI impI)
    fix r e self1
    assume "can_buy self symb qty price = Returned r self1 \<or>
      can_buy self symb qty price = Raised e self1"
    then have "self1 = self \<or> self1 = snd (get_portfolio_state self)"
      by (rule can_buy_any_state)
    then show "available_cash self1 = available_cash self \<and>
        holdings self1 = holdings self \<and>
        total_pnl self1 = total_pnl self \<and>
        trade_history self1 = trade_history self \<and>
        initial_budget self1 = initial_budget self \<and>
        fst (get_portfolio_state self1) = fst (get_portfolio_state self)"
      by (auto simp: get_portfolio_state_fields get_portfolio_state_idem)
  qed
  have d: "of_int qty * price = 40000 \<longrightarrow>
      can_buy (PortfolioManager_init (Some 100000)) symb qty price
        = Returned (False, PositionTooLarge 40) (PortfolioManager_init (Some 100000))"
    by (simp add: can_buy_fresh)
  have e: "of_int qty * price = 3000 \<longrightarrow>
      can_buy (PortfolioManager_init (Some 100000)) symb qty price
        = Returned (False, PositionTooSmall 3) (PortfolioManager_init (Some 100000))"
    by (simp add: can_buy_fresh)
  have f: "5000 \<le> of_int qty * price \<and> of_int qty * price \<le> 30000 \<longrightarrow>
      can_buy (PortfolioManager_init (Some 100000)) symb qty price
        = Returned (True, OK) (PortfolioManager_init (Some 100000))"
    by (simp add: can_buy_fresh Let_def)
  have g: "\<forall>b calls. run_calls (PortfolioManager_init b) calls = Some self \<longrightarrow>
      (\<forall>r e self1.
         can_buy self symb qty price = Returned r self1 \<or>
         can_buy self symb qty price = Raised e self1 \<longrightarrow> self1 = self)"
  proof (intro allI impI)
    fix b calls r e self1
    assume "run_calls (PortfolioManager_init b) calls = Some self"
    then have "snd (get_portfolio_state self) = self"
      using run_calls_pct_fresh[OF pct_fresh_init] by (simp add: pct_fresh_iff)
    moreover assume "can_buy self symb qty price = Returned r self1 \<or>
         can_buy self symb qty price = Raised e self1"
    then have "self1 = self \<or> self1 = snd (get_portfolio_state self)"
      by (rule can_buy_any_state)
    ultimately show "self1 = self" by auto
  qed
  show ?thesis
    by (intro conjI) (rule a b c d e f g)+
qed

theorem can_buy_checks_witness:
  "can_buy (PortfolioManager_init (Some 100000)) ''RELIANCE'' 100 1500
     = Returned (False, InsufficientCash 150000 100000) (PortfolioManager_init (Some 100000)) \<and>
   can_buy (PortfolioManager_init (Some 100000)) ''RELIANCE'' 10 4000
     = Returned (False, PositionTooLarge 40) (PortfolioManager_init (Some 100000)) \<and>
   can_buy (PortfolioManager_init (Some 100000)) ''RELIANCE'' 10 300
     = Returned (False, PositionTooSmall 3) (PortfolioManager_init (Some 100000)) \<and>
   can_buy (PortfolioManager_init (Some 100000)) ''RELIANCE'' 10 1500
     = Returned (True, OK) (PortfolioManager_init (Some 100000))"
proof -
  have c: "available_cash (PortfolioManager_init (Some 100000)) = 100000"
    by (simp add: PortfolioManager_init_def)
  have w1: "can_buy (PortfolioManager_init (Some 100000)) ''RELIANCE'' 100 1500
     = Returned (False, InsufficientCash 150000 100000) (PortfolioManager_init (Some 100000))"
    using can_buy_checks[where qty = 100 and price = 1500 and self = "PortfolioManager_init (Some 100000)"
            and symb = "''RELIANCE''", THEN conjunct1] c
    by simp
  have w2: "can_buy (PortfolioManager_init (Some 100000)) ''RELIANCE'' 10 4000
     = Returned (False, PositionTooLarge 40) (PortfolioManager_init (Some 100000))"
    using can_buy_checks[where qty = 10 and price = 4000 and self = "PortfolioManager_init (Some 100000)"
            and symb = "''RELIANCE''",
            THEN conjunct2, THEN conjunct2, THEN conjunct2, THEN conjunct1]
    by simp
  have w3: "can_buy (PortfolioManager_init (Some 100000)) ''RELIANCE'' 10 300
     = Returned (False, PositionTooSmall 3) (PortfolioManager_init (Some 100000))"
    using can_buy_checks[where qty = 10 and price = 300 and self = "PortfolioManager_init (Some 100000)"
            and symb = "''RELIANCE''",
            THEN conjunct2, THEN conjunct2, THEN conjunct2, THEN conjunct2, THEN conjunct1]
    by simp
  have w4: "can_buy (PortfolioManager_init (Some 100000)) ''RELIANCE'' 10 1500
     = Returned (True, OK) (PortfolioManager_init (Some 100000))"
    using can_buy_checks[where qty = 10 and price = 1500 and self = "PortfolioManager_init (Some 100000)"
            and symb = "''RELIANCE''",
            THEN conjunct2, THEN conjunct2, THEN conjunct2, THEN conjunct2, THEN conjunct2,
            THEN conjunct1]
    by simp
  have w5: "run_calls (PortfolioManager_init (Some 100000)) [] = Some (PortfolioManager_init (Some 100000)) \<longrightarrow>
      (\<forall>r e self1.
         can_buy (PortfolioManager_init (Some 100000)) ''RELIANCE'' 10 1500 = Returned r self1 \<or>
         can_buy (PortfolioManager_init (Some 100000)) ''RELIANCE'' 10 1500 = Raised e self1 \<longrightarrow>
           self1 = PortfolioManager_init (Some 100000))"
    using can_buy_checks[where qty = 10 and price = 1500 and self = "PortfolioManager_init (Some 100000)"
            and symb = "''RELIANCE''",
            THEN conjunct2, THEN conjunct2, THEN conjunct2, THEN conjunct2, THEN conjunct2,
            THEN conjunct2]
    by blast
  from w1 w2 w3 w4 w5 show ?thesis by simp
qed

text \<open>
  Against C4 as stated: \<open>can_buy\<close> accepts a negative price (with a negative quantity the cost
  is positive), reports a negative price with a positive quantity as \<open>PositionTooSmall\<close>, and
  sizes the order alone, not the resulting position: with 25 percent already held in a symbol,
  a further 10 percent passes.
\<close>

theorem can_buy_checks_counterexample:
  "can_buy (PortfolioManager_init (Some 100000)) ''RELIANCE'' (- 10) (- 1500)
     = Returned (True, OK) (PortfolioManager_init (Some 100000)) \<and>
   can_buy (PortfolioManager_init (Some 100000)) ''RELIANCE'' 10 (- 1500)
     = Returned (False, PositionTooSmall (- 15)) (PortfolioManager_init (Some 100000)) \<and>
   all_succeed (PortfolioManager_init (Some 100000))
     [ExecuteBuy
       \<lparr>tr_action = BUY, tr_symbol = ''RELIANCE'', tr_quantity = Some 25,
        tr_percentage = None, tr_price = Some 1000, tr_stop_loss = None,
        tr_take_profit = None, tr_reason = None, tr_confidence = None\<rparr>]
   = Some
     \<lparr>initial_budget = 100000, available_cash = 75000,
      holdings = [(''RELIANCE'',
         \<lparr>symbol = ''RELIANCE'', quantity = 25, avg_price = 1000, current_price = 1000,
          current_value = 25000, unrealized_pnl = 0, unrealized_pnl_percentage = 0,
          percentage_of_portfolio = 25\<rparr>)],
      trade_history =
        [\<lparr>tr_action = BUY, tr_symbol = ''RELIANCE'', tr_quantity = Some 25,
        tr_percentage = None, tr_price = Some 1000, tr_stop_loss = None,
        tr_take_profit = None, tr_reason = None, tr_confidence = None\<rparr>],
      total_pnl = 0, total_pnl_percentage = 0\<rparr> \<and>
   can_buy
     \<lparr>initial_budget = 100000, available_cash = 75000,
      holdings = [(''RELIANCE'',
         \<lparr>symbol = ''RELIANCE'', quantity = 25, avg_price = 1000, current_price = 1000,
          current_value = 25000, unrealized_pnl = 0, unrealized_pnl_percentage = 0,
          percentage_of_portfolio = 25\<rparr>)],
      trade_history =
        [\<lparr>tr_action = BUY, tr_symbol = ''RELIANCE'', tr_quantity = Some 25,
        tr_percentage = None, tr_price = Some 1000, tr_stop_loss = None,
        tr_take_profit = None, tr_reason = None, tr_confidence = None\<rparr>],
      total_pnl = 0, total_pnl_percentage = 0\<rparr>
     ''RELIANCE'' 10 1000
   = Returned (True, OK)
     \<lparr>initial_budget = 100000, available_cash = 75000,
      holdings = [(''RELIANCE'',
         \<lparr>symbol = ''RELIANCE'', quantity = 25, avg_price = 1000, current_price = 1000,
          current_value = 25000, unrealized_pnl = 0, unrealized_pnl_percentage = 0,
          percentage_of_portfolio = 25\<rparr>)],
      trade_history =
        [\<lparr>tr_action = BUY, tr_symbol = ''RELIANCE'', tr_quantity = Some 25,
        tr_percentage = None, tr_price = Some 1000, tr_stop_loss = None,
        tr_take_profit = None, tr_reason = None, tr_confidence = None\<rparr>],
      total_pnl = 0, total_pnl_percentage = 0\<rparr>"
  by code_simp










text \<open>
  C7 (as the code has it). \<open>get_portfolio_state\<close> returns
  \<open>total_pnl / (initial_budget - available_cash) * 100\<close> when
  \<open>initial_budget - available_cash > 0\<close>; otherwise it returns the percentage stored in the
  object by an earlier call (0 on a fresh ledger). The only field it can write is that stored
  percentage; on every ledger reached from a fresh one by calls that return, the value it
  writes is the value already stored, so it changes nothing. A second call right after the
  first returns the same value and leaves the object as the first call left it.
\<close>

theorem get_portfolio_state_percentage:
  "ps_total_pnl_percentage (fst (get_portfolio_state self)) =
     (if initial_budget self - available_cash self > 0
      then total_pnl self / (initial_budget self - available_cash self) * 100
      else total_pnl_percentage self) \<and>
   snd (get_portfolio_state self) =
     self\<lparr>total_pnl_percentage := ps_total_pnl_percentage (fst (get_portfolio_state self))\<rparr> \<and>
   get_portfolio_state (snd (get_portfolio_state self)) = get_portfolio_state self \<and>
   ps_total_pnl_percentage (fst (get_portfolio_state (PortfolioManager_init b))) = 0 \<and>
   (\<forall>calls s. run_calls (PortfolioManager_init b) calls = Some s \<longrightarrow>
      snd (get_portfolio_state s) = s)"
proof -
  have a: "ps_total_pnl_percentage (fst (get_portfolio_state self)) =
     (if initial_budget self - available_cash self > 0
      then total_pnl self / (initial_budget self - available_cash self) * 100
      else total_pnl_percentage self) \<and>
   snd (get_portfolio_state self) =
     self\<lparr>total_pnl_percentage := ps_total_pnl_percentage (fst (get_portfolio_state self))\<rparr> \<and>
   get_portfolio_state (snd (get_portfolio_state self)) = get_portfolio_state self \<and>
   ps_total_pnl_percentage (fst (get_portfolio_state (PortfolioManager_init b))) = 0"
    by (simp add: get_portfolio_state_def Let_def split_beta PortfolioManager_init_def)
  have r: "\<forall>calls s. run_calls (PortfolioManager_init b) calls = Some s \<longrightarrow>
      snd (get_portfolio_state s) = s"
    using run_calls_pct_fresh[OF pct_fresh_init] by (simp add: pct_fresh_iff)
  from a r show ?thesis by blast
qed

theorem get_portfolio_state_percentage_witness:
  "run_calls (PortfolioManager_init (Some 100000))
     [CallBuy
       \<lparr>tr_action = BUY, tr_symbol = ''RELIANCE'', tr_quantity = Some 10,
        tr_percentage = None, tr_price = Some 1500, tr_stop_loss = None,
        tr_take_profit = None, tr_reason = None, tr_confidence = None\<rparr>,
      CallUpdatePrice ''RELIANCE'' 1600,
      CallSell
       \<lparr>tr_action = SELL, tr_symbol = ''RELIANCE'', tr_quantity = None,
        tr_percentage = Some 50, tr_price = Some 1600, tr_stop_loss = None,
        tr_take_profit = None, tr_reason = None, tr_confidence = None\<rparr>]
   = Some
     \<lparr>initial_budget = 100000, available_cash = 93000,
      holdings = [(''RELIANCE'',
         \<lparr>symbol = ''RELIANCE'', quantity = 5, avg_price = 1500, current_price = 1600,
          current_value = 8000, unrealized_pnl = 500, unrealized_pnl_percentage = 20 / 3,
          percentage_of_portfolio = 800 / 101\<rparr>)],
      trade_history =
        [\<lparr>tr_action = BUY, tr_symbol = ''RELIANCE'', tr_quantity = Some 10,
        tr_percentage = None, tr_price = Some 1500, tr_stop_loss = None,
        tr_take_profit = None, tr_reason = None, tr_confidence = None\<rparr>,
        \<lparr>tr_action = SELL, tr_symbol = ''RELIANCE'', tr_quantity = None,
        tr_percentage = Some 50, tr_price = Some 1600, tr_stop_loss = None,
        tr_take_profit = None, tr_reason = None, tr_confidence = None\<rparr>],
      total_pnl = 500, total_pnl_percentage = 50 / 7\<rparr> \<and>
   snd (get_portfolio_state
     \<lparr>initial_budget = 100000, available_cash = 93000,
      holdings = [(''RELIANCE'',
         \<lparr>symbol = ''RELIANCE'', quantity = 5, avg_price = 1500, current_price = 1600,
          current_value = 8000, unrealized_pnl = 500, unrealized_pnl_percentage = 20 / 3,
          percentage_of_portfolio = 800 / 101\<rparr>)],
      trade_history =
        [\<lparr>tr_action = BUY, tr_symbol = ''RELIANCE'', tr_quantity = Some 10,
        tr_percentage = None, tr_price = Some 1500, tr_stop_loss = None,
        tr_take_profit = None, tr_reason = None, tr_confidence = None\<rparr>,
        \<lparr>tr_action = SELL, tr_symbol = ''RELIANCE'', tr_quantity = None,
        tr_percentage = Some 50, tr_price = Some 1600, tr_stop_loss = None,
        tr_take_profit = None, tr_reason = None, tr_confidence = None\<rparr>],
      total_pnl = 500, total_pnl_percentage = 50 / 7\<rparr>)
   = \<lparr>initial_budget = 100000, available_cash = 93000,
      holdings = [(''RELIANCE'',
         \<lparr>symbol = ''RELIANCE'', quantity = 5, avg_price = 1500, current_price = 1600,
          current_value = 8000, unrealized_pnl = 500, unrealized_pnl_percentage = 20 / 3,
          percentage_of_portfolio = 800 / 101\<rparr>)],
      trade_history =
        [\<lparr>tr_action = BUY, tr_symbol = ''RELIANCE'', tr_quantity = Some 10,
        tr_percentage = None, tr_price = Some 1500, tr_stop_loss = None,
        tr_take_profit = None, tr_reason = None, tr_confidence = None\<rparr>,
        \<lparr>tr_action = SELL, tr_symbol = ''RELIANCE'', tr_quantity = None,
        tr_percentage = Some 50, tr_price = Some 1600, tr_stop_loss = None,
        tr_take_profit = None, tr_reason = None, tr_confidence = None\<rparr>],
      total_pnl = 500, total_pnl_percentage = 50 / 7\<rparr> \<and>
   ps_total_pnl_percentage (fst (get_portfolio_state
     \<lparr>initial_budget = 100000, available_cash = 93000,
      holdings = [(''RELIANCE'',
         \<lparr>symbol = ''RELIANCE'', quantity = 5, avg_price = 1500, current_price = 1600,
          current_value = 8000, unrealized_pnl = 500, unrealized_pnl_percentage = 20 / 3,
          percentage_of_portfolio = 800 / 101\<rparr>)],
      trade_history =
        [\<lparr>tr_action = BUY, tr_symbol = ''RELIANCE'', tr_quantity = Some 10,
        tr_percentage = None, tr_price = Some 1500, tr_stop_loss = None,
        tr_take_profit = None, tr_reason = None, tr_confidence = None\<rparr>,
        \<lparr>tr_action = SELL, tr_symbol = ''RELIANCE'', tr_quantity = None,
        tr_percentage = Some 50, tr_price = Some 1600, tr_stop_loss = None,
        tr_take_profit = None, tr_reason = None, tr_confidence = None\<rparr>],
      total_pnl = 500, total_pnl_percentage = 50 / 7\<rparr>))
   = 50 / 7"
proof -
  let ?calls = "[CallBuy
       \<lparr>tr_action = BUY, tr_symbol = ''RELIANCE'', tr_quantity = Some 10,
        tr_percentage = None, tr_price = Some 1500, tr_stop_loss = None,
        tr_take_profit = None, tr_reason = None, tr_confidence = None\<rparr>,
      CallUpdatePrice ''RELIANCE'' 1600,
      CallSell
       \<lparr>tr_action = SELL, tr_symbol = ''RELIANCE'', tr_quantity = None,
        tr_percentage = Some 50, tr_price = Some 1600, tr_stop_loss = None,
        tr_take_profit = None, tr_reason = None, tr_confidence = None\<rparr>]"
  let ?s = "\<lparr>initial_budget = 100000, available_cash = 93000,
      holdings = [(''RELIANCE'',
         \<lparr>symbol = ''RELIANCE'', quantity = 5, avg_price = 1500, current_price = 1600,
          current_value = 8000, unrealized_pnl = 500, unrealized_pnl_percentage = 20 / 3,
          percentage_of_portfolio = 800 / 101\<rparr>)],
      trade_history =
        [\<lparr>tr_action = BUY, tr_symbol = ''RELIANCE'', tr_quantity = Some 10,
        tr_percentage = None, tr_price = Some 1500, tr_stop_loss = None,
        tr_take_profit = None, tr_reason = None, tr_confidence = None\<rparr>,
        \<lparr>tr_action = SELL, tr_symbol = ''RELIANCE'', tr_quantity = None,
        tr_percentage = Some 50, tr_price = Some 1600, tr_stop_loss = None,
        tr_take_profit = None, tr_reason = None, tr_confidence = None\<rparr>],
      total_pnl = 500, total_pnl_percentage = 50 / 7\<rparr>"
  have h: "run_calls (PortfolioManager_init (Some 100000)) ?calls = Some ?s"
    by code_simp
  note t = get_portfolio_state_percentage[of ?s "Some 100000"]
  from t have p: "ps_total_pnl_percentage (fst (get_portfolio_state ?s)) = 50 / 7"
    by simp
  from t h have f: "snd (get_portfolio_state ?s) = ?s"
    by blast
  from h p f show ?thesis
    by blast
qed

text \<open>
  Against C7 as stated: after buying 10 at 1500 and selling 5 and 5 at 1600, the cash exceeds
  the budget (\<open>initial_budget - available_cash = -1000\<close>) and \<open>get_portfolio_state\<close> returns
  the percentage \<open>50 / 7\<close> stored after the first sell, not 0.
\<close>

theorem get_portfolio_state_percentage_counterexample:
  "all_succeed (PortfolioManager_init (Some 100000))
     [ExecuteBuy
       \<lparr>tr_action = BUY, tr_symbol = ''RELIANCE'', tr_quantity = Some 10,
        tr_percentage = None, tr_price = Some 1500, tr_stop_loss = None,
        tr_take_profit = None, tr_reason = None, tr_confidence = None\<rparr>,
      ExecuteSell
       \<lparr>tr_action = SELL, tr_symbol = ''RELIANCE'', tr_quantity = Some 5,
        tr_percentage = None, tr_price = Some 1600, tr_stop_loss = None,
        tr_take_profit = None, tr_reason = None, tr_confidence = None\<rparr>,
      ExecuteSell
       \<lparr>tr_action = SELL, tr_symbol = ''RELIANCE'', tr_quantity = Some 5,
        tr_percentage = None, tr_price = Some 1600, tr_stop_loss = None,
        tr_take_profit = None, tr_reason = None, tr_confidence = None\<rparr>]
   = Some
     \<lparr>initial_budget = 100000, available_cash = 101000,
      holdings = [],
      trade_history =
        [\<lparr>tr_action = BUY, tr_symbol = ''RELIANCE'', tr_quantity = Some 10,
        tr_percentage = None, tr_price = Some 1500, tr_stop_loss = None,
        tr_take_profit = None, tr_reason = None, tr_confidence = None\<rparr>,
        \<lparr>tr_action = SELL, tr_symbol = ''RELIANCE'', tr_quantity = Some 5,
        tr_percentage = None, tr_price = Some 1600, tr_stop_loss = None,
        tr_take_profit = None, tr_reason = None, tr_confidence = None\<rparr>,
        \<lparr>tr_action = SELL, tr_symbol = ''RELIANCE'', tr_quantity = Some 5,
        tr_percentage = None, tr_price = Some 1600, tr_stop_loss = None,
        tr_take_profit = None, tr_reason = None, tr_confidence = None\<rparr>],
      total_pnl = 1000, total_pnl_percentage = 50 / 7\<rparr> \<and>
   fst (get_portfolio_state
     \<lparr>initial_budget = 100000, available_cash = 101000,
      holdings = [],
      trade_history =
        [\<lparr>tr_action = BUY, tr_symbol = ''RELIANCE'', tr_quantity = Some 10,
        tr_percentage = None, tr_price = Some 1500, tr_stop_loss = None,
        tr_take_profit = None, tr_reason = None, tr_confidence = None\<rparr>,
        \<lparr>tr_action = SELL, tr_symbol = ''RELIANCE'', tr_quantity = Some 5,
        tr_percentage = None, tr_price = Some 1600, tr_stop_loss = None,
        tr_take_profit = None, tr_reason = None, tr_confidence = None\<rparr>,
        \<lparr>tr_action = SELL, tr_symbol = ''RELIANCE'', tr_quantity = Some 5,
        tr_percentage = None, tr_price = Some 1600, tr_stop_loss = None,
        tr_take_profit = None, tr_reason = None, tr_confidence = None\<rparr>],
      total_pnl = 1000, total_pnl_percentage = 50 / 7\<rparr>)
   = \<lparr>ps_total_budget = 100000, ps_available_cash = 101000, ps_total_value = 101000,
      ps_holdings = [], ps_total_pnl = 1000, ps_total_pnl_percentage = 50 / 7\<rparr>"
  by code_simp




text \<open>
  C10. An order whose action is not BUY makes \<open>execute_buy\<close> return \<open>(False, message)\<close>
  without raising and with the object unchanged; an order whose action is not SELL does the
  same in \<open>execute_sell\<close>.
\<close>

theorem mismatched_action_is_returned_failure:
  "(tr_action trade_request \<noteq> BUY \<longrightarrow>
      execute_buy self trade_request = Returned (False, InvalidAction) self) \<and>
   (tr_action trade_request \<noteq> SELL \<longrightarrow>
      execute_sell self trade_request = Returned (False, InvalidAction) self)"
  by (simp add: execute_buy_def execute_sell_def)

theorem mismatched_action_is_returned_failure_witness:
  "execute_buy (PortfolioManager_init None)
     \<lparr>tr_action = HOLD, tr_symbol = ''RELIANCE'', tr_quantity = Some 10,
      tr_percentage = None, tr_price = Some 1500, tr_stop_loss = None,
      tr_take_profit = None, tr_reason = None, tr_confidence = None\<rparr>
   = Returned (False, InvalidAction) (PortfolioManager_init None) \<and>
   execute_sell (PortfolioManager_init None)
     \<lparr>tr_action = HOLD, tr_symbol = ''RELIANCE'', tr_quantity = Some 10,
      tr_percentage = None, tr_price = Some 1500, tr_stop_loss = None,
      tr_take_profit = None, tr_reason = None, tr_confidence = None\<rparr>
   = Returned (False, InvalidAction) (PortfolioManager_init None)"
  using mismatched_action_is_returned_failure
    [of "\<lparr>tr_action = HOLD, tr_symbol = ''RELIANCE'', tr_quantity = Some 10,
      tr_percentage = None, tr_price = Some 1500, tr_stop_loss = None,
      tr_take_profit = None, tr_reason = None, tr_confidence = None\<rparr>"
        "PortfolioManager_init None"]
  by simp

section \<open>Properties of the decision aggregator\<close>

lemma calculate_position_size_returns:
  "(case portfolio_state ''total_value'' of None \<Rightarrow> 1 | Some v \<Rightarrow> v) \<noteq> 0 \<Longrightarrow>
   \<exists>p. calculate_position_size agent_decisions portfolio_state = Inr p"
  by (simp add: calculate_position_size_def Let_def)

text \<open>
  C5 (as the code has it). The gate compares the weighted average, in which each BUY vote
  counts 1.2 times its confidence. Three BUY votes of confidence \<open>c\<close> (with a portfolio state
  whose total value is not zero) give confidence \<open>1.2 * c\<close> and the action BUY when
  \<open>1.2 * c \<ge> 70\<close>, HOLD otherwise. At \<open>c = 60\<close> the weighted average is 72 and the action is
  BUY; the majority is turned into HOLD only below \<open>c = 58.33..\<close>, for instance at 58.
\<close>

theorem three_buy_votes_gate:
  assumes "decision d1 = DT_BUY" "decision d2 = DT_BUY" "decision d3 = DT_BUY"
    "confidence d1 = c" "confidence d2 = c" "confidence d3 = c"
    "(case portfolio_state ''total_value'' of None \<Rightarrow> 1 | Some v \<Rightarrow> v) \<noteq> 0"
  shows "\<exists>d. make_final_decision analysis_data [d1, d2, d3] portfolio_state = Inr d \<and>
           md_confidence d = c * (12 / 10) \<and>
           final_action d = (if c * (12 / 10) \<ge> 70 then BUY else HOLD)"
proof -
  from calculate_position_size_returns[of portfolio_state "[d1, d2, d3]"] assms(7) obtain p where
    p: "calculate_position_size [d1, d2, d3] portfolio_state = Inr p" by auto
  show ?thesis
    unfolding make_final_decision_def
    by (simp add: p assms(1-6) split_beta Let_def BUY_CONFIDENCE_THRESHOLD_def)
qed

theorem three_buy_votes_gate_witness:
  "make_final_decision \<lparr>ad_symbol = ''RELIANCE'', ad_current_price = 1500\<rparr>
     [\<lparr>decision = DT_BUY, confidence = 58, risk_assessment = None, position_size = None\<rparr>,
      \<lparr>decision = DT_BUY, confidence = 58, risk_assessment = None, position_size = None\<rparr>,
      \<lparr>decision = DT_BUY, confidence = 58, risk_assessment = None, position_size = None\<rparr>]
     [''available_cash'' \<mapsto> 100000, ''total_value'' \<mapsto> 100000]
   = Inr \<lparr>final_action = HOLD, md_symbol = ''RELIANCE'', md_quantity = None,
          md_percentage = None, md_price = None, md_confidence = 696 / 10,
          md_agent_decisions =
            [\<lparr>decision = DT_BUY, confidence = 58, risk_assessment = None, position_size = None\<rparr>,
             \<lparr>decision = DT_BUY, confidence = 58, risk_assessment = None, position_size = None\<rparr>,
             \<lparr>decision = DT_BUY, confidence = 58, risk_assessment = None, position_size = None\<rparr>],
          md_risk_assessment = MEDIUM, md_position_size = 12,
          stop_loss = Some 1425, take_profit = Some 1725,
          next_interval = Some ''15min''\<rparr>"
proof -
  have e: "make_final_decision \<lparr>ad_symbol = ''RELIANCE'', ad_current_price = 1500\<rparr>
     [\<lparr>decision = DT_BUY, confidence = 58, risk_assessment = None, position_size = None\<rparr>,
      \<lparr>decision = DT_BUY, confidence = 58, risk_assessment = None, position_size = None\<rparr>,
      \<lparr>decision = DT_BUY, confidence = 58, risk_assessment = None, position_size = None\<rparr>]
     [''available_cash'' \<mapsto> 100000, ''total_value'' \<mapsto> 100000]
   = Inr \<lparr>final_action = HOLD, md_symbol = ''RELIANCE'', md_quantity = None,
          md_percentage = None, md_price = None, md_confidence = 696 / 10,
          md_agent_decisions =
            [\<lparr>decision = DT_BUY, confidence = 58, risk_assessment = None, position_size = None\<rparr>,
             \<lparr>decision = DT_BUY, confidence = 58, risk_assessment = None, position_size = None\<rparr>,
             \<lparr>decision = DT_BUY, confidence = 58, risk_assessment = None, position_size = None\<rparr>],
          md_risk_assessment = MEDIUM, md_position_size = 12,
          stop_loss = Some 1425, take_profit = Some 1725,
          next_interval = Some ''15min''\<rparr>"
    by code_simp
  from three_buy_votes_gate[of
          "\<lparr>decision = DT_BUY, confidence = 58, risk_assessment = None, position_size = None\<rparr>"
          "\<lparr>decision = DT_BUY, confidence = 58, risk_assessment = None, position_size = None\<rparr>"
          "\<lparr>decision = DT_BUY, confidence = 58, risk_assessment = None, position_size = None\<rparr>"
          58 "[''available_cash'' \<mapsto> 100000, ''total_value'' \<mapsto> 100000]"
          "\<lparr>ad_symbol = ''RELIANCE'', ad_current_price = 1500\<rparr>"] e
  show ?thesis by simp
qed

text \<open>
  Against C5 as stated: three BUY votes of confidence 60 give the action BUY with
  confidence 72, not HOLD.
\<close>

theorem three_buy_votes_gate_counterexample:
  "make_final_decision \<lparr>ad_symbol = ''RELIANCE'', ad_current_price = 1500\<rparr>
     [\<lparr>decision = DT_BUY, confidence = 60, risk_assessment = None, position_size = None\<rparr>,
      \<lparr>decision = DT_BUY, confidence = 60, risk_assessment = None, position_size = None\<rparr>,
      \<lparr>decision = DT_BUY, confidence = 60, risk_assessment = None, position_size = None\<rparr>]
     [''available_cash'' \<mapsto> 100000, ''total_value'' \<mapsto> 100000]
   = Inr \<lparr>final_action = BUY, md_symbol = ''RELIANCE'', md_quantity = None,
          md_percentage = None, md_price = None, md_confidence = 72,
          md_agent_decisions =
            [\<lparr>decision = DT_BUY, confidence = 60, risk_assessment = None, position_size = None\<rparr>,
             \<lparr>decision = DT_BUY, confidence = 60, risk_assessment = None, position_size = None\<rparr>,
             \<lparr>decision = DT_BUY, confidence = 60, risk_assessment = None, position_size = None\<rparr>],
          md_risk_assessment = MEDIUM, md_position_size = 12,
          stop_loss = Some 1425, take_profit = Some 1725,
          next_interval = Some ''5min''\<rparr>"
  by code_simp

text \<open>
  C8 (as the code has it). An empty vote list returns normally: HOLD, confidence 0, risk
  MEDIUM, position size 10 and next interval "1hour"; the stop-loss and the take-profit are
  not absent but computed from the current price at the MEDIUM percentages,
  \<open>price * (1 - 0.05)\<close> and \<open>price * (1 + 0.15)\<close>.
\<close>

theorem empty_votes_decision:
  "make_final_decision analysis_data [] portfolio_state =
     Inr \<lparr>final_action = HOLD,
          md_symbol = ad_symbol analysis_data,
          md_quantity = None, md_percentage = None, md_price = None,
          md_confidence = 0,
          md_agent_decisions = [],
          md_risk_assessment = MEDIUM,
          md_position_size = 10,
          stop_loss = Some (ad_current_price analysis_data * (95 / 100)),
          take_profit = Some (ad_current_price analysis_data * (115 / 100)),
          next_interval = Some ''1hour''\<rparr>"
  by (simp add: make_final_decision_def calculate_position_size_def determine_risk_level_def
        calculate_risk_levels_def determine_next_interval_def
        STOP_LOSS_PERCENTAGE_def TAKE_PROFIT_PERCENTAGE_def)

text \<open>
  Against C8 as stated: with a current price of 1500 and no votes, the stop-loss is 1425 and
  the take-profit 1725, neither is absent.
\<close>

theorem empty_votes_counterexample:
  "make_final_decision \<lparr>ad_symbol = ''RELIANCE'', ad_current_price = 1500\<rparr> [] Map.empty
   = Inr \<lparr>final_action = HOLD, md_symbol = ''RELIANCE'', md_quantity = None,
          md_percentage = None, md_price = None, md_confidence = 0,
          md_agent_decisions = [],
          md_risk_assessment = MEDIUM, md_position_size = 10,
          stop_loss = Some 1425, take_profit = Some 1725,
          next_interval = Some ''1hour''\<rparr>"
  by code_simp

end
